theory Spec2Isabelle
  imports Main "HOL-Library.Log_Nat"
begin

text \<open>
  The handlers of the content hub: the public view (\<open>App\<close>), the administration view
  (\<open>AdminPanel\<close>) and the download endpoint. Each handler is a function of the view
  state and of the answers of the backend to the requests it sends; it returns the new
  view state and what it did, in order.
\<close>

section \<open>Strings\<close>

text \<open>
  A JavaScript string is a sequence of code units; a \<^typ>\<open>string\<close> here is the list of
  its code units, for strings whose code units are below 256. The white space and line
  terminators that \<open>String.prototype.trim\<close> strips are, in that range, the code units
  9 to 13, 32 and 160.
\<close>

definition is_ws :: "char \<Rightarrow> bool" where
  "is_ws c = ((of_char c :: nat) \<in> {9, 10, 11, 12, 13, 32, 160})"

definition trim :: "string \<Rightarrow> string" where
  "trim s = rev (dropWhile is_ws (rev (dropWhile is_ws s)))"

text \<open>A string is truthy when it is not empty; an absent one (undefined, null) is falsy.\<close>

definition truthy :: "string option \<Rightarrow> bool" where
  "truthy v = (case v of None \<Rightarrow> False | Some s \<Rightarrow> s \<noteq> [])"

text \<open>
  \<open>s.split('.').pop()\<close>: what follows the last dot, the whole string when it has no dot.
\<close>

definition last_segment :: "string \<Rightarrow> string" where
  "last_segment s = rev (takeWhile (\<lambda>c. c \<noteq> CHR ''.'') (rev s))"

text \<open>\<open>toLowerCase\<close> on code units below 256: the ASCII and the Latin-1 capitals.\<close>

definition lower_char :: "char \<Rightarrow> char" where
  "lower_char c =
     (let n = (of_char c :: nat)
      in if (65 \<le> n \<and> n \<le> 90) \<or> (192 \<le> n \<and> n \<le> 222 \<and> n \<noteq> 215) then char_of (n + 32) else c)"

definition toLowerCase :: "string \<Rightarrow> string" where
  "toLowerCase s = map lower_char s"

text \<open>
  \<open>title.replace(/[^a-z0-9]/gi, '_')\<close>: without the unicode flag, the class matches,
  ignoring case, the ASCII letters and digits only.
\<close>

definition is_alnum :: "char \<Rightarrow> bool" where
  "is_alnum c =
     (let n = (of_char c :: nat)
      in (48 \<le> n \<and> n \<le> 57) \<or> (65 \<le> n \<and> n \<le> 90) \<or> (97 \<le> n \<and> n \<le> 122))"

definition sanitize :: "string \<Rightarrow> string" where
  "sanitize t = map (\<lambda>c. if is_alnum c then c else CHR ''_'') t"

section \<open>Numbers\<close>

text \<open>
  A JavaScript number is a double. A finite double is a rational, and \<open>number\<close> is the
  type of those values; an arithmetic operation computes the exact result and rounds it
  to the nearest double, ties to the even significand (\<open>fl\<close>). Doubles have 53
  significant bits and exponents down to \<open>2 powi (- 1074)\<close>; overflow to \<open>Infinity\<close> (a
  magnitude of \<open>2 ^ 1024\<close> or more) is outside this model. A counter (\<open>downloads\<close>,
  \<open>ratings_count\<close>) is a whole number that is not negative: a record holds it as a
  natural number, and a handler adds one to it as it adds doubles (\<open>jsadd\<close>), which
  is exact below \<open>2 ^ 53\<close> only.
\<close>

type_synonym number = rat

definition rne :: "rat \<Rightarrow> int" where
  "rne x =
     (let f = \<lfloor>x\<rfloor>; d = x - of_int f
      in if d < 1 / 2 then f else if 1 / 2 < d then f + 1 else if even f then f else f + 1)"

text \<open>For \<open>0 < q\<close>, the \<open>e\<close> with \<open>2 powi e \<le> q < 2 powi (e + 1)\<close>.\<close>

definition ilog2 :: "rat \<Rightarrow> int" where
  "ilog2 q = (if 1 \<le> q then bitlen \<lfloor>q\<rfloor> - 1 else - bitlen (\<lceil>1 / q\<rceil> - 1))"

definition fl :: "rat \<Rightarrow> number" where
  "fl q =
     (if q = 0 then 0
      else (let e = max (ilog2 \<bar>q\<bar> - 52) (- 1074)
            in of_int (rne (q / 2 powi e)) * 2 powi e))"

definition jsadd :: "number \<Rightarrow> number \<Rightarrow> number" where
  "jsadd a b = fl (a + b)"


text \<open>
  The divisor is not zero wherever the handlers divide: it is a counter plus one, or
  \<open>1024 * 1024\<close>.
\<close>

definition jsdiv :: "number \<Rightarrow> number \<Rightarrow> number" where
  "jsdiv a b = fl (a / b)"

text \<open>
  \<open>x.toFixed(f)\<close> takes the integer \<open>n\<close> for which \<open>n / 10 ^ f\<close> is closest to the exact
  value of \<open>x\<close>, the larger \<open>n\<close> of two, after setting the sign of a negative \<open>x\<close> aside,
  and prints \<open>n\<close> with \<open>f\<close> digits after the point (below \<open>10 ^ 21\<close>).
\<close>

definition toFixed_int :: "nat \<Rightarrow> number \<Rightarrow> int" where
  "toFixed_int f x =
     (if x < 0 then - \<lfloor>- x * 10 ^ f + 1 / 2\<rfloor> else \<lfloor>x * 10 ^ f + 1 / 2\<rfloor>)"

definition digit :: "nat \<Rightarrow> char" where
  "digit d = char_of (48 + d)"

fun decimal :: "nat \<Rightarrow> string" where
  "decimal n = (if n < 10 then [digit n] else decimal (n div 10) @ [digit (n mod 10)])"

declare decimal.simps [simp del]

definition toFixed :: "nat \<Rightarrow> number \<Rightarrow> string" where
  "toFixed f x =
     (let ds = decimal (nat \<bar>toFixed_int f x\<bar>);
          m = replicate (f + 1 - length ds) (CHR ''0'') @ ds;
          k = length m
      in (if x < 0 then ''-'' else []) @
         (if f = 0 then m else take (k - f) m @ ''.'' @ drop (k - f) m))"

text \<open>The natural number that a counter computed in doubles is.\<close>

definition whole :: "number \<Rightarrow> nat" where
  "whole x = nat \<lfloor>x\<rfloor>"


section \<open>The backend and the browser, seen from the handlers\<close>

text \<open>
  An awaited call of the backend SDK resolves to an object with a \<open>data\<close> and an
  \<open>error\<close> field (either may be null), or the promise is rejected and the \<open>await\<close>
  throws. The error is represented by its message.
\<close>

datatype 'a result = Result (data: "'a option") (err: "string option") | Rejected

record Comment =
  comment_id :: string
  content_id :: string
  comment_author :: string
  comment_text :: string
  comment_created_at :: string

record ContentCard =
  card_id :: string
  title :: string
  author :: string
  type :: string
  downloads :: nat
  image :: string
  rating :: number
  ratings_count :: "nat option"
  description :: "string option"
  version :: "string option"
  file_size :: "string option"
  file_url :: "string option"
  created_at :: "string option"
  updated_at :: "string option"

record File =
  file_name :: string
  file_bytes :: nat
  file_type :: string

record ContentFormData =
  form_title :: string
  form_type :: string
  form_description :: string
  form_version :: string
  form_file_size :: string
  form_image :: string
  form_file_url :: "string option"

text \<open>
  What a handler does besides updating the view state: the requests it sends, in order,
  the alerts and console messages it shows, and what it asks of the browser. A request
  carries what the handler puts in it: an upload its path, content type and file (its
  cache control is a constant), an insert or update of a content record the fields of
  the form, and for an insert the downloads, the rating and the author, for an update
  the id and the time stamp.
\<close>

datatype effect =
    Alert string
  | ConsoleError string
  | ConsoleLog string
  | SelectContentByDownloads
  | UpdateDownloads string number
  | UpdateRating string number number
  | FetchFile string
  | SaveBlob string
  | WindowOpen string
  | SelectComments string
  | InsertComment string string string
  | DeleteComment string
  | SelectContentByCreated
  | StorageUpload string string File
  | InsertContent ContentFormData nat number string
  | UpdateContent string ContentFormData string
  | DeleteContent string
  | SelectRow string

fun is_network :: "effect \<Rightarrow> bool" where
  "is_network (Alert _) = False"
| "is_network (ConsoleError _) = False"
| "is_network (ConsoleLog _) = False"
| "is_network (SaveBlob _) = False"
| "is_network (WindowOpen _) = False"
| "is_network _ = True"

section \<open>The public view (App)\<close>

record App =
  activeCategory :: string
  selectedContent :: "ContentCard option"
  isAdmin :: bool
  showAdminPanel :: bool
  featuredContent :: "ContentCard list"
  error :: "string option"
  filteredContent :: "ContentCard list"
  comments :: "Comment list"
  commentAuthor :: string
  commentText :: string

subsection \<open>The list and the category filter\<close>

definition matchesCategory :: "string \<Rightarrow> ContentCard \<Rightarrow> bool" where
  "matchesCategory category content =
     (if category = ''resource-packs'' then type content = ''Resource Pack''
      else if category = ''mods'' then type content = ''Mod''
      else if category = ''clients'' then type content = ''Client''
      else True)"

text \<open>The effect that depends on \<open>activeCategory\<close> and \<open>featuredContent\<close>.\<close>

definition categoryEffect :: "App \<Rightarrow> App" where
  "categoryEffect s =
     (if activeCategory s = ''all'' then s\<lparr>filteredContent := featuredContent s\<rparr>
      else s\<lparr>filteredContent := filter (matchesCategory (activeCategory s)) (featuredContent s)\<rparr>)"

text \<open>
  React runs this effect again after a handler has set \<open>activeCategory\<close> or
  \<open>featuredContent\<close>: the state that a handler returns is the one displayed then. A
  click on a category button calls \<open>setActiveCategory\<close> with the button's id. The
  effect that fetches the content has no dependency and runs on mount only.
\<close>

definition setActiveCategory :: "App \<Rightarrow> string \<Rightarrow> App \<times> effect list" where
  "setActiveCategory s category = (categoryEffect (s\<lparr>activeCategory := category\<rparr>), [])"

definition fetchContent :: "App \<Rightarrow> ContentCard list result \<Rightarrow> App \<times> effect list" where
  "fetchContent s r =
     (case r of
        Rejected \<Rightarrow>
          (s\<lparr>error := Some ''An unexpected error occurred. Please try again later.''\<rparr>,
           [SelectContentByDownloads, ConsoleError ''Unexpected error:''])
      | Result d e \<Rightarrow>
          (case e of
             Some _ \<Rightarrow>
               (s\<lparr>error := Some ''Error fetching content. Please try again later.''\<rparr>,
                [SelectContentByDownloads, ConsoleError ''Error fetching content:''])
           | None \<Rightarrow>
               (let rows = (case d of None \<Rightarrow> [] | Some rows \<Rightarrow> rows)
                in (categoryEffect (s\<lparr>featuredContent := rows, filteredContent := rows, error := None\<rparr>),
                    [SelectContentByDownloads]))))"

subsection \<open>Download\<close>

text \<open>\<open>prev.map(item => item.id === i ? updated : item)\<close>\<close>

definition replaceById :: "string \<Rightarrow> ContentCard \<Rightarrow> ContentCard list \<Rightarrow> ContentCard list" where
  "replaceById i updated items = map (\<lambda>item. if card_id item = i then updated else item) items"

text \<open>
  \<open>r\<close> answers the update of the counter; \<open>fetched\<close> tells whether fetching the file and
  reading its bytes succeeded. The \<open>error\<close> read before the lists are updated is the
  one of the view state.
\<close>

definition handleDownload :: "App \<Rightarrow> ContentCard \<Rightarrow> unit result \<Rightarrow> bool \<Rightarrow> App \<times> effect list" where
  "handleDownload s content r fetched =
     (if \<not> truthy (file_url content) then (s, [Alert ''No file available for download.''])
      else
        (let url = (case file_url content of None \<Rightarrow> [] | Some u \<Rightarrow> u);
             counted =
               UpdateDownloads (card_id content) (jsadd (of_nat (downloads content)) 1) #
               (case r of
                  Rejected \<Rightarrow> [ConsoleError ''Error in download count update:'']
                | Result d e \<Rightarrow>
                    (case e of Some _ \<Rightarrow> [ConsoleError ''Error updating download count:''] | None \<Rightarrow> []))
         in if fetched then
              (let ext = toLowerCase (last_segment url);
                   fileExt = (if ext = [] then ''html'' else ext);
                   fileName = sanitize (title content) @ ''.'' @ fileExt;
                   updatedContent = content\<lparr>downloads := whole (jsadd (of_nat (downloads content)) 1)\<rparr>
               in ((if \<not> truthy (error s) then
                      categoryEffect
                        (s\<lparr>featuredContent := replaceById (card_id content) updatedContent (featuredContent s),
                           filteredContent := replaceById (card_id content) updatedContent (filteredContent s)\<rparr>)
                    else s),
                   counted @ [FetchFile url, SaveBlob fileName]))
            else
              (s, counted @ [FetchFile url, ConsoleError ''Download error:'',
                             Alert ''Download started in a new tab. You may need to save the file manually.'',
                             WindowOpen url])))"

subsection \<open>Rating\<close>





subsection \<open>Comments\<close>

definition fetchComments :: "App \<Rightarrow> string \<Rightarrow> Comment list result \<Rightarrow> App \<times> effect list" where
  "fetchComments s contentId r =
     (case r of
        Rejected \<Rightarrow>
          (s, [ConsoleLog ''Fetching comments for content:'', SelectComments contentId,
               ConsoleError ''Error in fetchComments:''])
      | Result d e \<Rightarrow>
          (case e of
             Some _ \<Rightarrow>
               (s, [ConsoleLog ''Fetching comments for content:'', SelectComments contentId,
                    ConsoleError ''Error fetching comments:''])
           | None \<Rightarrow>
               (s\<lparr>comments := (case d of None \<Rightarrow> [] | Some rows \<Rightarrow> rows)\<rparr>,
                [ConsoleLog ''Fetching comments for content:'', SelectComments contentId,
                 ConsoleLog ''Comments fetched:''])))"

text \<open>
  \<open>r\<close> answers the insert; \<open>rf\<close> answers the select of \<open>fetchComments\<close>, when it is
  called.
\<close>

definition postComment ::
  "App \<Rightarrow> string \<Rightarrow> Comment list result \<Rightarrow> Comment list result \<Rightarrow> App \<times> effect list" where
  "postComment s contentId r rf =
     (if trim (commentAuthor s) = [] \<or> trim (commentText s) = [] then
        (s, [Alert ''Please enter your name and comment''])
      else
        (let sent = [ConsoleLog ''Submitting comment:'',
                     InsertComment contentId (trim (commentAuthor s)) (trim (commentText s))]
         in case r of
              Rejected \<Rightarrow>
                (s, sent @ [ConsoleError ''Error in postComment:'',
                            Alert ''An error occurred while posting your comment.''])
            | Result d e \<Rightarrow>
                (case e of
                   Some msg \<Rightarrow>
                     (s, sent @ [ConsoleError ''Error posting comment:'',
                                 Alert (''Failed to post comment: '' @ msg)])
                 | None \<Rightarrow>
                     (case d of
                        Some (newComment # _) \<Rightarrow>
                          (s\<lparr>comments := newComment # comments s, commentText := []\<rparr>,
                           sent @ [ConsoleLog ''Comment posted successfully:'',
                                   Alert ''Comment posted successfully!''])
                      | _ \<Rightarrow>
                          (let (s', fx) = fetchComments s contentId rf
                           in (s', sent @ [ConsoleLog ''Comment posted successfully:'',
                                           ConsoleLog ''Fetching all comments after post''] @ fx))))))"

definition deleteComment :: "App \<Rightarrow> string \<Rightarrow> unit result \<Rightarrow> App \<times> effect list" where
  "deleteComment s commentId r =
     (if \<not> isAdmin s then
        (s, [ConsoleError ''Unauthorized deletion attempt'',
             Alert ''Only administrators can delete comments.''])
      else
        (case r of
           Rejected \<Rightarrow>
             (s, [DeleteComment commentId, ConsoleError ''Error in deleteComment:'',
                  Alert ''An error occurred while deleting the comment.''])
         | Result d e \<Rightarrow>
             (case e of
                Some msg \<Rightarrow>
                  (s, [DeleteComment commentId, ConsoleError ''Error deleting comment:'',
                       Alert (''Failed to delete comment: '' @ msg)])
              | None \<Rightarrow>
                  (s\<lparr>comments := filter (\<lambda>c. comment_id c \<noteq> commentId) (comments s)\<rparr>,
                   [DeleteComment commentId, Alert ''Comment deleted successfully'']))))"

section \<open>The administration view (AdminPanel)\<close>

record AdminPanel =
  formData :: ContentFormData
  content :: "ContentCard list"
  isEditing :: "string option"
  file' :: "File option"
  uploading :: bool
  adminError :: "string option"
  deletingId :: "string option"
  showDeleteConfirm :: bool
  authStatus :: string

definition emptyForm :: ContentFormData where
  "emptyForm =
     \<lparr>form_title = [], form_type = ''Resource Pack'', form_description = [], form_version = [],
      form_file_size = [], form_image = [], form_file_url = None\<rparr>"

text \<open>
  \<open>fetchContent\<close> of the panel has no handler for a rejected promise: the result is
  \<open>None\<close> when the \<open>await\<close> throws.
\<close>

definition adminFetchContent ::
  "AdminPanel \<Rightarrow> ContentCard list result \<Rightarrow> AdminPanel option \<times> effect list" where
  "adminFetchContent s r =
     (case r of
        Rejected \<Rightarrow> (None, [SelectContentByCreated])
      | Result d e \<Rightarrow>
          (case e of
             Some _ \<Rightarrow> (Some s, [SelectContentByCreated, ConsoleError ''Error fetching content:''])
           | None \<Rightarrow>
               (Some (s\<lparr>content := (case d of None \<Rightarrow> [] | Some rows \<Rightarrow> rows)\<rparr>),
                [SelectContentByCreated])))"

subsection \<open>Upload\<close>

definition max_file_bytes :: nat where
  "max_file_bytes = 50 * 1024 * 1024"

text \<open>
  \<open>input\<close> is the value of the file input of the event; it is returned as the handler
  leaves it.
\<close>

definition handleFileChange ::
  "AdminPanel \<Rightarrow> string \<Rightarrow> File option \<Rightarrow> AdminPanel \<times> string \<times> effect list" where
  "handleFileChange s input selectedFile =
     (case selectedFile of
        Some f \<Rightarrow>
          if max_file_bytes < file_bytes f then
            (s\<lparr>adminError := Some ''File size exceeds the 50MB limit. Please select a smaller file.''\<rparr>,
             [], [])
          else (s\<lparr>file' := Some f, adminError := None\<rparr>, input, [])
      | None \<Rightarrow> (s\<lparr>file' := None, adminError := None\<rparr>, input, []))"

definition sizeString :: "File \<Rightarrow> string" where
  "sizeString f = toFixed 2 (jsdiv (of_nat (file_bytes f)) (1024 * 1024)) @ ''MB''"

definition uploadPath :: "string \<Rightarrow> File \<Rightarrow> string" where
  "uploadPath uniqueId f = ''content/'' @ (uniqueId @ ''-'' @ file_name f)"

definition uploadContentType :: "File \<Rightarrow> string" where
  "uploadContentType f =
     (if file_type f = ''text/html'' \<or> toLowerCase (last_segment (file_name f)) = ''html''
      then ''application/octet-stream'' else file_type f)"

text \<open>
  \<open>uniqueId\<close> is the token drawn from \<open>Math.random\<close>, \<open>r\<close> answers the upload,
  \<open>publicUrl\<close> is what the storage client gives for the path. The result is \<open>None\<close>
  when the function throws, else the url and the size.
\<close>

definition uploadFile ::
  "AdminPanel \<Rightarrow> File \<Rightarrow> string \<Rightarrow> unit result \<Rightarrow> string
     \<Rightarrow> AdminPanel \<times> effect list \<times> (string \<times> string) option" where
  "uploadFile s f uniqueId r publicUrl =
     (let sent = StorageUpload (uploadPath uniqueId f) (uploadContentType f) f;
          s' = s\<lparr>uploading := False\<rparr>
      in case r of
           Rejected \<Rightarrow> (s', [sent, ConsoleError ''Error uploading file:''], None)
         | Result d e \<Rightarrow>
             (case e of
                Some _ \<Rightarrow> (s', [sent, ConsoleError ''Error uploading file:''], None)
              | None \<Rightarrow> (s', [sent], Some (publicUrl, sizeString f))))"

subsection \<open>Submit\<close>

definition contentData :: "ContentFormData \<Rightarrow> (string \<times> string) option \<Rightarrow> ContentFormData" where
  "contentData fd fileData =
     (case fileData of
        None \<Rightarrow> fd
      | Some (url, sz) \<Rightarrow>
          fd\<lparr>form_file_size := (if sz \<noteq> [] then sz else form_file_size fd),
             form_file_url := (if url \<noteq> [] then Some url else form_file_url fd)\<rparr>)"

definition writeRequest :: "AdminPanel \<Rightarrow> ContentFormData \<Rightarrow> string \<Rightarrow> effect" where
  "writeRequest s cd now =
     (case isEditing s of
        None \<Rightarrow> InsertContent cd 0 0 ''admin''
      | Some i \<Rightarrow> if i \<noteq> [] then UpdateContent i cd now else InsertContent cd 0 0 ''admin'')"

definition saveFailed :: "AdminPanel \<Rightarrow> AdminPanel" where
  "saveFailed s = s\<lparr>adminError := Some ''Failed to save content. Please try again.''\<rparr>"

text \<open>
  \<open>ru\<close> answers the upload, \<open>rw\<close> the insert or update, \<open>rf\<close> the select that
  refreshes the list; \<open>now\<close> is the time stamp of the update.
\<close>

definition handleSubmit ::
  "AdminPanel \<Rightarrow> string \<Rightarrow> unit result \<Rightarrow> string \<Rightarrow> string \<Rightarrow> unit result
     \<Rightarrow> ContentCard list result \<Rightarrow> AdminPanel \<times> effect list" where
  "handleSubmit s uniqueId ru publicUrl now rw rf =
     (let s0 = s\<lparr>adminError := None\<rparr>;
          (s1, fx1, uploaded) =
            (case file' s0 of
               None \<Rightarrow> (s0, [], Some None)
             | Some f \<Rightarrow>
                 (case uploadFile s0 f uniqueId ru publicUrl of
                    (s', fx, None) \<Rightarrow> (s', fx, None)
                  | (s', fx, Some fileData) \<Rightarrow> (s', fx, Some (Some fileData))))
      in case uploaded of
           None \<Rightarrow> (saveFailed s1, fx1 @ [ConsoleError ''Error saving content:''])
         | Some fileData \<Rightarrow>
             (let write = writeRequest s1 (contentData (formData s1) fileData) now
              in case rw of
                   Rejected \<Rightarrow> (saveFailed s1, fx1 @ [write, ConsoleError ''Error saving content:''])
                 | Result d e \<Rightarrow>
                     (case e of
                        Some _ \<Rightarrow> (saveFailed s1, fx1 @ [write, ConsoleError ''Error saving content:''])
                      | None \<Rightarrow>
                          (let s2 = s1\<lparr>formData := emptyForm, isEditing := None, file' := None\<rparr>
                           in case adminFetchContent s2 rf of
                                (None, fx) \<Rightarrow> (s2, fx1 @ [write] @ fx)
                              | (Some s3, fx) \<Rightarrow> (s3, fx1 @ [write] @ fx)))))"

subsection \<open>Delete\<close>

definition confirmDelete :: "AdminPanel \<Rightarrow> string \<Rightarrow> AdminPanel" where
  "confirmDelete s i = s\<lparr>deletingId := Some i, showDeleteConfirm := True\<rparr>"

definition cancelDelete :: "AdminPanel \<Rightarrow> AdminPanel" where
  "cancelDelete s = s\<lparr>showDeleteConfirm := False, deletingId := None\<rparr>"

definition removeLocally :: "string \<Rightarrow> AdminPanel \<Rightarrow> AdminPanel" where
  "removeLocally i s = s\<lparr>content := filter (\<lambda>item. card_id item \<noteq> i) (content s)\<rparr>"

definition deleteFailed :: "string \<Rightarrow> AdminPanel \<Rightarrow> AdminPanel" where
  "deleteFailed i s =
     removeLocally i (s\<lparr>adminError := Some ''Failed to delete content on server, but removed from view.''\<rparr>)"

text \<open>\<open>rd\<close> answers the delete, \<open>rf\<close> the select that refreshes the list after it.\<close>

definition handleDelete ::
  "AdminPanel \<Rightarrow> string \<Rightarrow> unit result \<Rightarrow> ContentCard list result \<Rightarrow> AdminPanel \<times> effect list" where
  "handleDelete s i rd rf =
     (let s0 = s\<lparr>adminError := None\<rparr>;
          sent = [ConsoleLog ''Attempting to delete content with ID:'', DeleteContent i]
      in case rd of
           Rejected \<Rightarrow> (deleteFailed i s0, sent @ [ConsoleError ''Error deleting content:''])
         | Result d e \<Rightarrow>
             (case e of
                Some _ \<Rightarrow>
                  ((removeLocally i s0)\<lparr>deletingId := None, showDeleteConfirm := False\<rparr>,
                   sent @ [ConsoleError ''Supabase delete error:'',
                           ConsoleLog ''Removed from local state due to server error''])
              | None \<Rightarrow>
                  (case adminFetchContent s0 rf of
                     (None, fx) \<Rightarrow> (deleteFailed i s0, sent @ fx @ [ConsoleError ''Error deleting content:''])
                   | (Some s1, fx) \<Rightarrow>
                       (s1\<lparr>deletingId := None, showDeleteConfirm := False\<rparr>, sent @ fx))))"

text \<open>The button of the confirmation step: \<open>deletingId && handleDelete(deletingId)\<close>.\<close>

definition clickDelete ::
  "AdminPanel \<Rightarrow> unit result \<Rightarrow> ContentCard list result \<Rightarrow> AdminPanel \<times> effect list" where
  "clickDelete s rd rf =
     (case deletingId s of
        None \<Rightarrow> (s, [])
      | Some i \<Rightarrow> if i \<noteq> [] then handleDelete s i rd rf else (s, []))"

section \<open>The download endpoint (pages/api/download)\<close>


datatype body = Json string string | Bytes "nat list"

record response =
  status :: nat
  headers :: "(string \<times> string) list"
  sent :: body



text \<open>The record that an insert or an update of the content table carries.\<close>

definition written :: "effect \<Rightarrow> ContentFormData option" where
  "written e =
     (case e of InsertContent cd _ _ _ \<Rightarrow> Some cd | UpdateContent _ cd _ \<Rightarrow> Some cd | _ \<Rightarrow> None)"

section \<open>The filter tags\<close>

text \<open>
  The ids of the four category buttons, and the category that the items listed under
  each of the three proper filters carry in their \<open>type\<close> field.
\<close>

definition categories :: "string list" where
  "categories = [''all'', ''resource-packs'', ''mods'', ''clients'']"

definition categoryTag :: "string \<Rightarrow> string" where
  "categoryTag category =
     (if category = ''resource-packs'' then ''Resource Pack''
      else if category = ''mods'' then ''Mod'' else ''Client'')"

section \<open>Sample data\<close>

definition comment1 :: Comment where
  "comment1 = \<lparr>comment_id = ''c1'', content_id = ''p1'', comment_author = ''Ann'',
                comment_text = ''Nice pack'', comment_created_at = ''2025-03-26''\<rparr>"

definition comment2 :: Comment where
  "comment2 = \<lparr>comment_id = ''c2'', content_id = ''p1'', comment_author = ''Bob'',
                comment_text = ''Works'', comment_created_at = ''2025-03-27''\<rparr>"

definition card1 :: ContentCard where
  "card1 = \<lparr>card_id = ''p1'', title = ''Test Pack'', author = ''admin'', type = ''Resource Pack'',
             downloads = 0, image = ''https://img/1.png'', rating = 0, ratings_count = None,
             description = None, version = None, file_size = None, file_url = None,
             created_at = None, updated_at = None\<rparr>"

definition card2 :: ContentCard where
  "card2 = \<lparr>card_id = ''p2'', title = ''Shaders'', author = ''admin'', type = ''Mod'',
             downloads = 7, image = ''https://img/2.png'', rating = 9 / 2, ratings_count = Some 1,
             description = None, version = Some ''2.1.0'', file_size = Some ''1.00MB'',
             file_url = Some ''https://files/content/ab-shaders.zip'',
             created_at = None, updated_at = None\<rparr>"

definition visitor :: App where
  "visitor = \<lparr>activeCategory = ''all'', selectedContent = Some card1, isAdmin = False,
               showAdminPanel = False, featuredContent = [card2, card1], error = None,
               filteredContent = [card2, card1], comments = [comment1],
               commentAuthor = ''  '', commentText = ''hello''\<rparr>"

definition bigFile :: File where
  "bigFile = \<lparr>file_name = ''world.zip'', file_bytes = 52428801, file_type = ''application/zip''\<rparr>"

definition page :: File where
  "page = \<lparr>file_name = ''Client.HTML'', file_bytes = 1572864, file_type = []\<rparr>"

definition panel :: AdminPanel where
  "panel = \<lparr>formData = emptyForm\<lparr>form_title := ''Test Pack''\<rparr>, content = [card2, card1],
             isEditing = None, file' = Some page, uploading = False, adminError = None,
             deletingId = Some ''p1'', showDeleteConfirm = True, authStatus = ''Checking...''\<rparr>"


section \<open>Rounding to a double\<close>

lemma rne_of_int: "rne (of_int z) = z"
  by (simp add: rne_def)

lemma rne_error: "\<bar>of_int (rne y) - y\<bar> \<le> 1 / 2"
proof -
  define f where "f = \<lfloor>y\<rfloor>"
  have lo: "of_int f \<le> y" unfolding f_def by (rule of_int_floor_le)
  have hi: "y < of_int f + 1" unfolding f_def by linarith
  consider "y - of_int f < 1 / 2" | "1 / 2 < y - of_int f" | "y - of_int f = 1 / 2" by linarith
  then show ?thesis
  proof cases
    case 1
    then have "rne y = f" by (simp add: rne_def f_def Let_def)
    with lo 1 show ?thesis by simp
  next
    case 2
    then have "rne y = f + 1" by (simp add: rne_def f_def Let_def)
    with hi 2 show ?thesis by simp
  next
    case 3
    then have "rne y = f \<or> rne y = f + 1" by (simp add: rne_def f_def Let_def)
    with 3 show ?thesis by auto
  qed
qed

lemma ilog2_le:
  assumes "0 < q"
  shows "2 powi (ilog2 q) \<le> q"
proof (cases "1 \<le> q")
  case True
  then have pos: "0 < \<lfloor>q\<rfloor>" by linarith
  then have b1: "1 \<le> bitlen \<lfloor>q\<rfloor>"
    using bitlen_eq_zero_iff [of "\<lfloor>q\<rfloor>"] bitlen_nonneg [of "\<lfloor>q\<rfloor>"] by linarith
  from bitlen_bounds [OF pos] have "2 ^ nat (bitlen \<lfloor>q\<rfloor> - 1) \<le> \<lfloor>q\<rfloor>" by simp
  then have "(of_int (2 ^ nat (bitlen \<lfloor>q\<rfloor> - 1)) :: rat) \<le> of_int \<lfloor>q\<rfloor>"
    by (simp only: of_int_le_iff)
  also have "\<dots> \<le> q" by simp
  finally have "(2::rat) ^ nat (bitlen \<lfloor>q\<rfloor> - 1) \<le> q" by simp
  with True b1 show ?thesis by (simp add: ilog2_def power_int_def)
next
  case False
  with assms have inv: "1 < 1 / q" by simp
  define c where "c = \<lceil>1 / q\<rceil> - 1"
  from inv have "1 < \<lceil>1 / q\<rceil>" by linarith
  then have cpos: "0 < c" by (simp add: c_def)
  from bitlen_bounds [OF cpos] have "c < 2 ^ nat (bitlen c)" by simp
  then have "\<lceil>1 / q\<rceil> \<le> 2 ^ nat (bitlen c)" by (simp add: c_def)
  then have "(of_int \<lceil>1 / q\<rceil> :: rat) \<le> of_int (2 ^ nat (bitlen c))"
    by (simp only: of_int_le_iff)
  then have "(of_int \<lceil>1 / q\<rceil> :: rat) \<le> 2 ^ nat (bitlen c)"
    by simp
  moreover have "1 / q \<le> of_int \<lceil>1 / q\<rceil>" by (rule le_of_int_ceiling)
  ultimately have "1 / q \<le> 2 ^ nat (bitlen c)" by (rule order_trans [rotated])
  with assms have "1 / 2 ^ nat (bitlen c) \<le> q"
    by (simp add: field_simps)
  moreover have "ilog2 q = - bitlen c" using False by (simp add: ilog2_def c_def)
  moreover have "(2::rat) powi (- bitlen c) = 1 / 2 ^ nat (bitlen c)"
    using bitlen_nonneg [of c] by (simp add: power_int_minus power_int_def field_simps)
  ultimately show ?thesis by simp
qed

lemma ilog2_less:
  assumes "0 < q"
  shows "q < 2 powi (ilog2 q + 1)"
proof (cases "1 \<le> q")
  case True
  then have pos: "0 < \<lfloor>q\<rfloor>" by linarith
  from bitlen_bounds [OF pos] have "\<lfloor>q\<rfloor> + 1 \<le> 2 ^ nat (bitlen \<lfloor>q\<rfloor>)" by simp
  then have "(of_int (\<lfloor>q\<rfloor> + 1) :: rat) \<le> of_int (2 ^ nat (bitlen \<lfloor>q\<rfloor>))"
    by (simp only: of_int_le_iff)
  moreover have "q < of_int (\<lfloor>q\<rfloor> + 1)" by simp linarith
  ultimately have "q < 2 ^ nat (bitlen \<lfloor>q\<rfloor>)" by simp
  with True bitlen_nonneg [of "\<lfloor>q\<rfloor>"] show ?thesis by (simp add: ilog2_def power_int_def)
next
  case False
  with assms have inv: "1 < 1 / q" by simp
  define c where "c = \<lceil>1 / q\<rceil> - 1"
  from inv have "1 < \<lceil>1 / q\<rceil>" by linarith
  then have cpos: "0 < c" by (simp add: c_def)
  then have b1: "1 \<le> bitlen c"
    using bitlen_eq_zero_iff [of c] bitlen_nonneg [of c] by linarith
  from bitlen_bounds [OF cpos] have "2 ^ nat (bitlen c - 1) \<le> c" by simp
  then have "(of_int (2 ^ nat (bitlen c - 1)) :: rat) \<le> of_int c"
    by (simp only: of_int_le_iff)
  then have "(2::rat) ^ nat (bitlen c - 1) \<le> of_int c" by simp
  moreover have "of_int c < 1 / q" unfolding c_def by simp linarith
  ultimately have "2 ^ nat (bitlen c - 1) < 1 / q" by (rule le_less_trans)
  with assms have "q < 1 / 2 ^ nat (bitlen c - 1)"
    by (simp add: field_simps)
  moreover have "ilog2 q + 1 = - (bitlen c - 1)" using False by (simp add: ilog2_def c_def)
  moreover have "(2::rat) powi (- (bitlen c - 1)) = 1 / 2 ^ nat (bitlen c - 1)"
    using b1 by (simp add: power_int_minus power_int_def field_simps)
  ultimately show ?thesis by simp
qed

text \<open>The significand that \<open>fl\<close> keeps has at most 53 bits.\<close>

lemma fl_significand:
  assumes "x \<noteq> 0" and "e = max (ilog2 \<bar>x\<bar> - 52) (- 1074)"
  shows "fl x = of_int (rne (x / 2 powi e)) * 2 powi e" and "\<bar>rne (x / 2 powi e)\<bar> \<le> 2 ^ 53"
proof -
  from assms show "fl x = of_int (rne (x / 2 powi e)) * 2 powi e"
    by (simp only: fl_def Let_def if_False)
  from assms(1) have xpos: "0 < \<bar>x\<bar>" by simp
  define y where "y = x / 2 powi e"
  have "ilog2 \<bar>x\<bar> + 1 \<le> e + 53" using assms(2) by simp
  then have "(2::rat) powi (ilog2 \<bar>x\<bar> + 1) \<le> 2 powi (e + 53)"
    by (rule power_int_increasing) simp
  with ilog2_less [OF xpos] have "\<bar>x\<bar> < 2 powi (e + 53)" by (rule less_le_trans)
  also have "\<dots> = 2 powi e * 2 ^ 53" by (simp add: power_int_add)
  finally have "\<bar>y\<bar> < 2 ^ 53"
    by (simp add: y_def abs_divide field_simps)
  moreover have "\<bar>of_int (rne y) - y\<bar> \<le> 1 / 2" by (rule rne_error)
  ultimately have "\<bar>(of_int (rne y) :: rat)\<bar> < 2 ^ 53 + 1" by linarith
  then have "(of_int \<bar>rne y\<bar> :: rat) < of_int (2 ^ 53 + 1)" by simp
  then have "\<bar>rne y\<bar> < 2 ^ 53 + 1" by (simp only: of_int_less_iff)
  then show "\<bar>rne (x / 2 powi e)\<bar> \<le> 2 ^ 53" by (simp add: y_def)
qed

text \<open>A value with a significand below \<open>2 ^ 53\<close> is a double: rounding leaves it as it is.\<close>

lemma fl_exact:
  assumes "\<bar>m\<bar> < 2 ^ 53" and "- 1074 \<le> k"
  shows "fl (of_int m * 2 powi k) = of_int m * 2 powi k"
proof (cases "m = 0")
  case True
  then show ?thesis by (simp add: fl_def)
next
  case False
  define q :: rat where "q = of_int m * 2 powi k"
  have qabs: "\<bar>q\<bar> = of_int \<bar>m\<bar> * 2 powi k" by (simp add: q_def abs_mult)
  from False have qpos: "0 < \<bar>q\<bar>" by (simp add: q_def)
  define e where "e = max (ilog2 \<bar>q\<bar> - 52) (- 1074)"
  have "e \<le> k"
  proof (cases "ilog2 \<bar>q\<bar> - 52 \<le> - 1074")
    case True
    then show ?thesis using assms(2) by (simp add: e_def)
  next
    case False
    have "2 powi (ilog2 \<bar>q\<bar>) \<le> \<bar>q\<bar>" by (rule ilog2_le [OF qpos])
    also have "\<dots> < 2 ^ 53 * 2 powi k"
    proof -
      from assms(1) have "(of_int \<bar>m\<bar> :: rat) < of_int (2 ^ 53)" by (simp only: of_int_less_iff)
      then show ?thesis by (simp add: qabs)
    qed
    also have "\<dots> = 2 powi (53 + k)" by (simp add: power_int_add)
    finally have "(2::rat) powi (ilog2 \<bar>q\<bar>) < 2 powi (53 + k)" .
    then have "ilog2 \<bar>q\<bar> < 53 + k"
      using power_int_increasing [of "53 + k" "ilog2 \<bar>q\<bar>" "2::rat"]
      by (cases "ilog2 \<bar>q\<bar> < 53 + k") auto
    with False show ?thesis by (simp add: e_def)
  qed
  then have "(2::rat) powi k = 2 powi (k - e) * 2 powi e"
    by (simp add: power_int_add [symmetric])
  moreover from \<open>e \<le> k\<close> have "(2::rat) powi (k - e) = of_int (2 ^ nat (k - e))"
    by (simp add: power_int_def)
  ultimately have split: "q = of_int (m * 2 ^ nat (k - e)) * 2 powi e"
    by (simp add: q_def)
  then have "q / 2 powi e = of_int (m * 2 ^ nat (k - e))" by simp
  then have rn: "rne (q / 2 powi e) = m * 2 ^ nat (k - e)" by (simp only: rne_of_int)
  from qpos have "q \<noteq> 0" by simp
  then have "fl q = of_int (rne (q / 2 powi e)) * 2 powi e"
    by (simp only: fl_def Let_def e_def if_False)
  also have "\<dots> = of_int (m * 2 ^ nat (k - e)) * 2 powi e" by (simp only: rn)
  also have "\<dots> = q" by (simp only: split [symmetric])
  finally show ?thesis by (simp only: q_def)
qed




section \<open>Printing a number\<close>

lemma decimal_digit: "n < 10 \<Longrightarrow> decimal n = [digit n]"
  by (subst decimal.simps) simp

lemma decimal_step: "10 \<le> n \<Longrightarrow> decimal n = decimal (n div 10) @ [digit (n mod 10)]"
  by (subst decimal.simps) simp

lemma decimal_length: "Suc 0 \<le> length (decimal n)"
  by (subst decimal.simps) simp

lemma digit_0: "digit 0 = CHR ''0''"
  by code_simp

lemma toFixed_int_nonneg:
  assumes "0 \<le> x"
  shows "nat \<bar>toFixed_int 2 x\<bar> = nat \<lfloor>x * 100 + 1 / 2\<rfloor>"
proof -
  from assms have "0 \<le> x * 100 + 1 / 2" by simp
  then have "0 \<le> \<lfloor>x * 100 + 1 / 2\<rfloor>" by (simp only: zero_le_floor)
  with assms show ?thesis by (simp add: toFixed_int_def)
qed

lemma toFixed_2_unfold:
  assumes "0 \<le> x"
  shows "toFixed 2 x =
           (let ds = decimal (nat \<lfloor>x * 100 + 1 / 2\<rfloor>);
                m = replicate (3 - length ds) (CHR ''0'') @ ds
            in take (length m - 2) m @ ''.'' @ drop (length m - 2) m)"
proof -
  from assms have "\<not> x < 0" by simp
  then show ?thesis
    unfolding toFixed_def toFixed_int_nonneg [OF assms] by (simp add: Let_def)
qed

lemma point_small:
  "n < 10 \<Longrightarrow>
     (let ds = decimal n; m = replicate (3 - length ds) (CHR ''0'') @ ds
      in take (length m - 2) m @ ''.'' @ drop (length m - 2) m) =
     decimal (n div 100) @ ''.'' @ [digit (n mod 100 div 10), digit (n mod 10)]"
  by (simp add: Let_def decimal_digit digit_0 numeral_3_eq_3)

lemma point_medium:
  assumes "10 \<le> n" and "n < 100"
  shows "(let ds = decimal n; m = replicate (3 - length ds) (CHR ''0'') @ ds
          in take (length m - 2) m @ ''.'' @ drop (length m - 2) m) =
         decimal (n div 100) @ ''.'' @ [digit (n mod 100 div 10), digit (n mod 10)]"
proof -
  from assms have "n div 10 < 10" by simp
  then have "decimal (n div 10) = [digit (n div 10)]" by (rule decimal_digit)
  with decimal_step [OF assms(1)] have ds: "decimal n = [digit (n div 10), digit (n mod 10)]"
    by simp
  from assms have "n div 100 = 0" and "n mod 100 = n" by simp_all
  with ds show ?thesis
    by (simp add: Let_def decimal_digit [of 0] digit_0 numeral_3_eq_3)
qed

lemma point_large:
  assumes "100 \<le> n"
  shows "(let ds = decimal n; m = replicate (3 - length ds) (CHR ''0'') @ ds
          in take (length m - 2) m @ ''.'' @ drop (length m - 2) m) =
         decimal (n div 100) @ ''.'' @ [digit (n mod 100 div 10), digit (n mod 10)]"
proof -
  from assms have a: "10 \<le> n" and b: "10 \<le> n div 10" by simp_all
  have "n div 10 div 10 = n div 100"
    by (simp add: div_mult2_eq [symmetric])
  with decimal_step [OF a] decimal_step [OF b]
  have ds: "decimal n = decimal (n div 100) @ [digit (n div 10 mod 10), digit (n mod 10)]"
    by simp
  have "n mod 100 div 10 = n div 10 mod 10"
    by (simp add: mod_mult2_eq [of n 10 10, simplified])
  with ds decimal_length [of "n div 100"] show ?thesis by (simp add: Let_def)
qed

text \<open>
  With two digits after the point, a number that is not negative prints as the digits
  of its hundredths \<open>n\<close>: those of \<open>n div 100\<close>, the point, and two digits.
\<close>

lemma toFixed_2:
  assumes "0 \<le> x"
  shows "toFixed 2 x =
           (let n = nat \<lfloor>x * 100 + 1 / 2\<rfloor>
            in decimal (n div 100) @ ''.'' @ [digit (n mod 100 div 10), digit (n mod 10)])"
proof -
  define n where "n = nat \<lfloor>x * 100 + 1 / 2\<rfloor>"
  consider "n < 10" | "10 \<le> n" "n < 100" | "100 \<le> n" by linarith
  then have "(let ds = decimal n; m = replicate (3 - length ds) (CHR ''0'') @ ds
              in take (length m - 2) m @ ''.'' @ drop (length m - 2) m) =
             decimal (n div 100) @ ''.'' @ [digit (n mod 100 div 10), digit (n mod 10)]"
    by cases (rule point_small point_medium point_large; assumption)+
  then show ?thesis
    unfolding toFixed_2_unfold [OF assms] n_def [symmetric] by (simp only: Let_def)
qed



section \<open>The public view\<close>

subsection \<open>Rating\<close>





lemma fl_above: "fl (2 ^ 53 + 1) = 2 ^ 53"
  by code_simp

lemma count_rounded: "jsadd (of_nat (2 ^ 53)) 1 = of_nat (2 ^ 53)"
  using fl_above by (simp only: jsadd_def of_nat_power of_nat_numeral)















subsection \<open>The category filter\<close>

text \<open>
  Claim C7. For each of the four category buttons, the list displayed after the click
  is the whole fetched list for \<open>all\<close>, and otherwise the fetched items, in their
  order, whose type is the category of the button; the fetched list itself is not
  touched and no request is sent.
\<close>

theorem category_filter:
  assumes "category \<in> set categories"
  shows "filteredContent (fst (setActiveCategory s category)) =
           (if category = ''all'' then featuredContent s
            else filter (\<lambda>c. type c = categoryTag category) (featuredContent s)) \<and>
         featuredContent (fst (setActiveCategory s category)) = featuredContent s \<and>
         snd (setActiveCategory s category) = []"
proof -
  from assms consider "category = ''all''" | "category = ''resource-packs''"
    | "category = ''mods''" | "category = ''clients''"
    unfolding categories_def by fastforce
  then show ?thesis
  proof cases
    case 1
    then show ?thesis by (simp add: setActiveCategory_def categoryEffect_def)
  next
    case 2
    then show ?thesis
      by (simp add: setActiveCategory_def categoryEffect_def matchesCategory_def [abs_def] categoryTag_def)
  next
    case 3
    then show ?thesis
      by (simp add: setActiveCategory_def categoryEffect_def matchesCategory_def [abs_def] categoryTag_def)
  next
    case 4
    then show ?thesis
      by (simp add: setActiveCategory_def categoryEffect_def matchesCategory_def [abs_def] categoryTag_def)
  qed
qed

theorem category_filter_witness:
  "''mods'' \<in> set categories \<and>
   filteredContent (fst (setActiveCategory visitor ''mods'')) = [card2] \<and>
   featuredContent (fst (setActiveCategory visitor ''mods'')) = [card2, card1] \<and>
   snd (setActiveCategory visitor ''mods'') = []"
  using category_filter [of "''mods''" visitor]
  by (simp add: categories_def categoryTag_def visitor_def card1_def card2_def)

text \<open>After a fetch that succeeds, the list displayed is the fetched rows under the filter.\<close>

lemma fetchContent_displayed:
  assumes "activeCategory s \<in> set categories"
  shows "filteredContent (fst (fetchContent s (Result (Some rows) None))) =
           (if activeCategory s = ''all'' then rows
            else filter (\<lambda>c. type c = categoryTag (activeCategory s)) rows)"
proof -
  from assms consider "activeCategory s = ''all''" | "activeCategory s = ''resource-packs''"
    | "activeCategory s = ''mods''" | "activeCategory s = ''clients''"
    unfolding categories_def by fastforce
  then show ?thesis
    by cases (simp_all add: fetchContent_def categoryEffect_def matchesCategory_def [abs_def] categoryTag_def)
qed

subsection \<open>Download\<close>

text \<open>
  Claim C6. For an item without a file reference (absent or empty) \<open>handleDownload\<close>
  shows an alert and stops: the view state is unchanged, no request is sent (neither the
  increment of the counter nor the fetch of the file) and nothing is saved.
\<close>

theorem handleDownload_blocked:
  "\<not> truthy (file_url item) \<Longrightarrow>
     handleDownload s item r fetched = (s, [Alert ''No file available for download.'']) \<and>
     \<not> list_ex is_network (snd (handleDownload s item r fetched)) \<and>
     (\<forall>name. SaveBlob name \<notin> set (snd (handleDownload s item r fetched)))"
  by (simp add: handleDownload_def)

theorem handleDownload_blocked_witness:
  "\<not> truthy (file_url card1) \<and>
   handleDownload visitor card1 (Result None None) True = (visitor, [Alert ''No file available for download.''])"
  using handleDownload_blocked [of card1 visitor "Result None None" True]
  by (simp add: card1_def truthy_def)

subsection \<open>Comments\<close>

text \<open>
  Claim C3. When the author or the text of a comment is empty after trimming,
  \<open>postComment\<close> sends nothing and leaves the view state, the comment list with it,
  as it was. When the insert succeeds and the backend returns the new row, that row is
  put in front of the local comment list. When the insert succeeds and no row comes
  back, \<open>fetchComments\<close> is called: the comments are selected again, and the rows
  that come back become the list.
\<close>

theorem postComment_cases:
  "(trim (commentAuthor s) = [] \<or> trim (commentText s) = [] \<longrightarrow>
      fst (postComment s contentId r rf) = s \<and>
      \<not> list_ex is_network (snd (postComment s contentId r rf))) \<and>
   (trim (commentAuthor s) \<noteq> [] \<and> trim (commentText s) \<noteq> [] \<and> r = Result (Some (newComment # rest)) None \<longrightarrow>
      comments (fst (postComment s contentId r rf)) = newComment # comments s \<and>
      InsertComment contentId (trim (commentAuthor s)) (trim (commentText s))
        \<in> set (snd (postComment s contentId r rf))) \<and>
   (trim (commentAuthor s) \<noteq> [] \<and> trim (commentText s) \<noteq> [] \<and>
    (r = Result None None \<or> r = Result (Some []) None) \<longrightarrow>
      postComment s contentId r rf =
        (fst (fetchComments s contentId rf),
         [ConsoleLog ''Submitting comment:'',
          InsertComment contentId (trim (commentAuthor s)) (trim (commentText s)),
          ConsoleLog ''Comment posted successfully:'',
          ConsoleLog ''Fetching all comments after post''] @ snd (fetchComments s contentId rf)) \<and>
      SelectComments contentId \<in> set (snd (postComment s contentId r rf)) \<and>
      (\<forall>rows. rf = Result (Some rows) None \<longrightarrow> comments (fst (postComment s contentId r rf)) = rows))"
  by (auto simp: postComment_def fetchComments_def split: prod.splits result.splits option.splits)

theorem postComment_cases_witness:
  "trim (commentAuthor visitor) = [] \<and>
   fst (postComment visitor ''p1'' Rejected Rejected) = visitor \<and>
   \<not> list_ex is_network (snd (postComment visitor ''p1'' Rejected Rejected)) \<and>
   trim (commentAuthor (visitor\<lparr>commentAuthor := '' Bob ''\<rparr>)) = ''Bob'' \<and>
   trim (commentText (visitor\<lparr>commentAuthor := '' Bob ''\<rparr>)) = ''hello'' \<and>
   comments (fst (postComment (visitor\<lparr>commentAuthor := '' Bob ''\<rparr>) ''p1''
                    (Result (Some [comment2]) None) Rejected)) = [comment2, comment1] \<and>
   comments (fst (postComment (visitor\<lparr>commentAuthor := '' Bob ''\<rparr>) ''p1''
                    (Result (Some []) None) (Result (Some [comment2, comment1]) None))) = [comment2, comment1] \<and>
   SelectComments ''p1'' \<in> set (snd (postComment (visitor\<lparr>commentAuthor := '' Bob ''\<rparr>) ''p1''
                    (Result (Some []) None) (Result (Some [comment2, comment1]) None)))"
  using postComment_cases [of visitor "''p1''" Rejected Rejected comment2 "[]"]
    postComment_cases [of "visitor\<lparr>commentAuthor := '' Bob ''\<rparr>" "''p1''" "Result (Some [comment2]) None" Rejected comment2 "[]"]
    postComment_cases [of "visitor\<lparr>commentAuthor := '' Bob ''\<rparr>" "''p1''" "Result (Some []) None"
       "Result (Some [comment2, comment1]) None" comment2 "[]"]
  by (simp add: visitor_def trim_def is_ws_def fetchComments_def)

text \<open>
  Claim C5. Without admin status \<open>deleteComment\<close> only logs and alerts "Only
  administrators can delete comments.": no request is sent and the view state, the
  comment list with it, is unchanged. With admin status and a delete that succeeds, the
  comment is removed from the local list.
\<close>

theorem deleteComment_admin_only:
  "(\<not> isAdmin s \<longrightarrow>
      fst (deleteComment s commentId r) = s \<and>
      snd (deleteComment s commentId r) =
        [ConsoleError ''Unauthorized deletion attempt'', Alert ''Only administrators can delete comments.''] \<and>
      \<not> list_ex is_network (snd (deleteComment s commentId r))) \<and>
   (isAdmin s \<and> r = Result d None \<longrightarrow>
      fst (deleteComment s commentId r) =
        s\<lparr>comments := filter (\<lambda>c. comment_id c \<noteq> commentId) (comments s)\<rparr> \<and>
      commentId \<notin> comment_id ` set (comments (fst (deleteComment s commentId r))) \<and>
      DeleteComment commentId \<in> set (snd (deleteComment s commentId r)))"
  by (auto simp: deleteComment_def)

theorem deleteComment_admin_only_witness:
  "\<not> isAdmin visitor \<and>
   comments (fst (deleteComment visitor ''c1'' Rejected)) = [comment1] \<and>
   snd (deleteComment visitor ''c1'' Rejected) =
     [ConsoleError ''Unauthorized deletion attempt'', Alert ''Only administrators can delete comments.''] \<and>
   isAdmin (visitor\<lparr>isAdmin := True\<rparr>) \<and>
   comments (fst (deleteComment (visitor\<lparr>isAdmin := True\<rparr>) ''c1'' (Result None None))) = []"
  using deleteComment_admin_only [of visitor "''c1''" Rejected None]
    deleteComment_admin_only [of "visitor\<lparr>isAdmin := True\<rparr>" "''c1''" "Result None None" None]
  by (simp add: visitor_def comment1_def)

section \<open>The administration view\<close>

subsection \<open>Choosing a file\<close>

text \<open>
  Claim C9. A file of more than 50MB chosen in the form is refused on the spot: the
  error message is set, the file input is emptied, the file kept for the next submit is
  the one kept before, and the handler sends nothing.
\<close>

theorem handleFileChange_oversized:
  "max_file_bytes < file_bytes f \<Longrightarrow>
     fst (handleFileChange s input (Some f)) =
       s\<lparr>adminError := Some ''File size exceeds the 50MB limit. Please select a smaller file.''\<rparr> \<and>
     file' (fst (handleFileChange s input (Some f))) = file' s \<and>
     fst (snd (handleFileChange s input (Some f))) = [] \<and>
     snd (snd (handleFileChange s input (Some f))) = []"
  by (simp add: handleFileChange_def)

theorem handleFileChange_oversized_witness:
  "max_file_bytes < file_bytes bigFile \<and>
   adminError (fst (handleFileChange panel ''C:/fakepath/world.zip'' (Some bigFile))) =
     Some ''File size exceeds the 50MB limit. Please select a smaller file.'' \<and>
   file' (fst (handleFileChange panel ''C:/fakepath/world.zip'' (Some bigFile))) = Some page \<and>
   fst (snd (handleFileChange panel ''C:/fakepath/world.zip'' (Some bigFile))) = [] \<and>
   snd (snd (handleFileChange panel ''C:/fakepath/world.zip'' (Some bigFile))) = []"
  using handleFileChange_oversized [of bigFile panel "''C:/fakepath/world.zip''"]
  by (simp add: max_file_bytes_def bigFile_def panel_def)

subsection \<open>Upload\<close>

text \<open>The size of a file is an integer below \<open>2 ^ 53\<close>: dividing it by \<open>2 ^ 20\<close> is exact.\<close>

lemma jsdiv_MB:
  assumes "n < 2 ^ 53"
  shows "jsdiv (of_nat n) (1024 * 1024) = of_nat n / 1048576"
proof -
  have eq: "(of_nat n :: rat) / 1048576 = of_int (int n) * 2 powi (- 20)"
    by (simp add: power_int_minus field_simps)
  from assms have small: "\<bar>int n\<bar> < 2 ^ 53" by simp
  have "jsdiv (of_nat n) (1024 * 1024) = fl (of_nat n / 1048576)"
    by (simp add: jsdiv_def)
  also have "\<dots> = fl (of_int (int n) * 2 powi (- 20))" by (simp only: eq)
  also have "\<dots> = of_int (int n) * 2 powi (- 20)" by (rule fl_exact [OF small]) simp
  also have "\<dots> = of_nat n / 1048576" by (simp only: eq)
  finally show ?thesis .
qed

lemma hundredths:
  "nat \<lfloor>(of_nat b :: rat) / 1048576 * 100 + 1 / 2\<rfloor> = (100 * b + 524288) div 1048576"
proof -
  have "(of_nat b :: rat) / 1048576 * 100 + 1 / 2 = of_int (int (100 * b + 524288)) / of_int 1048576"
    by (simp add: field_simps)
  then have "\<lfloor>(of_nat b :: rat) / 1048576 * 100 + 1 / 2\<rfloor> = int (100 * b + 524288) div 1048576"
    by (simp only: floor_divide_of_int_eq)
  then show ?thesis by (simp add: nat_div_distrib)
qed

lemma sizeString_eq:
  assumes "file_bytes f < 2 ^ 53"
  shows "sizeString f =
           (let n = (100 * file_bytes f + 524288) div 1048576
            in decimal (n div 100) @ ''.'' @ [digit (n mod 100 div 10), digit (n mod 10)] @ ''MB'')"
proof -
  have "0 \<le> (of_nat (file_bytes f) :: rat) / 1048576" by simp
  from toFixed_2 [OF this]
  have "toFixed 2 (jsdiv (of_nat (file_bytes f)) (1024 * 1024)) =
          (let n = (100 * file_bytes f + 524288) div 1048576
           in decimal (n div 100) @ ''.'' @ [digit (n mod 100 div 10), digit (n mod 10)])"
    by (simp only: jsdiv_MB [OF assms] hundredths)
  then show ?thesis by (simp add: sizeString_def Let_def)
qed

lemma sizeString_nonempty: "sizeString f \<noteq> []"
  by (simp add: sizeString_def)

lemma last_segment_ext:
  assumes "CHR ''.'' \<notin> set ext"
  shows "last_segment (base @ CHR ''.'' # ext) = ext"
proof -
  have "takeWhile (\<lambda>c. c \<noteq> CHR ''.'') (rev ext @ CHR ''.'' # rev base) =
          takeWhile (\<lambda>c. c \<noteq> CHR ''.'') (rev ext)"
    by (rule takeWhile_tail) simp
  also from assms have "\<dots> = rev ext" by (auto simp add: takeWhile_eq_all_conv)
  finally show ?thesis by (simp add: last_segment_def)
qed

text \<open>
  Claim C8. \<open>uploadFile\<close> first sends the file to the storage under the path
  \<open>content/\<close>, the random token, a hyphen and the original file name. When the declared
  type of the file is \<open>text/html\<close>, or the part of its name after the last dot is
  \<open>html\<close> in any case, the content type sent is \<open>application/octet-stream\<close>. When the
  upload succeeds the function returns the public url together with the size in
  megabytes (\<open>2 ^ 20\<close> bytes), rounded to the nearest hundredth and printed with two
  digits after the point, followed by \<open>MB\<close>.
\<close>

theorem uploadFile_result:
  assumes "file_bytes f < 2 ^ 53"
  shows "take 1 (fst (snd (uploadFile s f uniqueId r publicUrl))) =
           [StorageUpload (''content/'' @ uniqueId @ ''-'' @ file_name f) (uploadContentType f) f] \<and>
         (file_type f = ''text/html'' \<or>
          (\<exists>base ext. file_name f = base @ ''.'' @ ext \<and> CHR ''.'' \<notin> set ext \<and> toLowerCase ext = ''html'') \<longrightarrow>
            uploadContentType f = ''application/octet-stream'') \<and>
         (r = Result d None \<longrightarrow>
            snd (snd (uploadFile s f uniqueId r publicUrl)) =
              Some (publicUrl,
                    (let n = (100 * file_bytes f + 524288) div 1048576
                     in decimal (n div 100) @ ''.'' @ [digit (n mod 100 div 10), digit (n mod 10)] @ ''MB'')))"
proof (intro conjI impI)
  show "take 1 (fst (snd (uploadFile s f uniqueId r publicUrl))) =
          [StorageUpload (''content/'' @ uniqueId @ ''-'' @ file_name f) (uploadContentType f) f]"
    by (simp add: uploadFile_def uploadPath_def Let_def split: result.splits option.splits)
next
  assume "file_type f = ''text/html'' \<or>
          (\<exists>base ext. file_name f = base @ ''.'' @ ext \<and> CHR ''.'' \<notin> set ext \<and> toLowerCase ext = ''html'')"
  then show "uploadContentType f = ''application/octet-stream''"
  proof
    assume "file_type f = ''text/html''"
    then show ?thesis by (simp add: uploadContentType_def)
  next
    assume "\<exists>base ext. file_name f = base @ ''.'' @ ext \<and> CHR ''.'' \<notin> set ext \<and> toLowerCase ext = ''html''"
    then obtain base ext where "file_name f = base @ ''.'' @ ext" and "CHR ''.'' \<notin> set ext"
      and "toLowerCase ext = ''html''" by blast
    then have "toLowerCase (last_segment (file_name f)) = ''html''"
      by (simp add: last_segment_ext)
    then show ?thesis by (simp add: uploadContentType_def)
  qed
next
  assume "r = Result d None"
  then show "snd (snd (uploadFile s f uniqueId r publicUrl)) =
              Some (publicUrl,
                    (let n = (100 * file_bytes f + 524288) div 1048576
                     in decimal (n div 100) @ ''.'' @ [digit (n mod 100 div 10), digit (n mod 10)] @ ''MB''))"
    by (simp add: uploadFile_def Let_def sizeString_eq [OF assms])
qed

lemma page_name: "file_name page = ''Client'' @ ''.'' @ ''HTML''"
  by (simp add: page_def)

lemma page_small: "file_bytes page < 2 ^ 53"
  by (simp add: page_def)

lemma HTML_lower: "toLowerCase ''HTML'' = ''html''"
  by code_simp

lemma page_ext:
  "\<exists>base ext. file_name page = base @ ''.'' @ ext \<and> CHR ''.'' \<notin> set ext \<and> toLowerCase ext = ''html''"
  using page_name HTML_lower by (intro exI [of _ "''Client''"] exI [of _ "''HTML''"]) simp

lemma page_hundredths: "(100 * file_bytes page + 524288) div 1048576 = 150"
  by (simp add: page_def)

lemma digits_150: "decimal (Suc 0) = ''1''" "digit 5 = CHR ''5''" "digit 0 = CHR ''0''"
  by code_simp+

theorem uploadFile_result_witness:
  "file_bytes page < 2 ^ 53 \<and>
   take 1 (fst (snd (uploadFile panel page ''k3x9'' (Result None None) ''https://files/content/k3x9-Client.HTML''))) =
     [StorageUpload ''content/k3x9-Client.HTML'' ''application/octet-stream'' page] \<and>
   snd (snd (uploadFile panel page ''k3x9'' (Result None None) ''https://files/content/k3x9-Client.HTML'')) =
     Some (''https://files/content/k3x9-Client.HTML'', ''1.50MB'')"
  using uploadFile_result [OF page_small, of panel "''k3x9''" "Result None None"
      "''https://files/content/k3x9-Client.HTML''" None] page_ext page_small
  by (simp add: page_hundredths digits_150 page_name)

subsection \<open>Submit\<close>

lemma written_writeRequest: "written (writeRequest s cd now) = Some cd"
  by (simp add: written_def writeRequest_def split: option.splits)

lemma handleSubmit_upload_failed:
  assumes "file' s = Some f" and "ru = Rejected \<or> ru = Result d (Some m)"
  shows "handleSubmit s uniqueId ru publicUrl now rw rf =
           (s\<lparr>uploading := False, adminError := Some ''Failed to save content. Please try again.''\<rparr>,
            [StorageUpload (uploadPath uniqueId f) (uploadContentType f) f,
             ConsoleError ''Error uploading file:'', ConsoleError ''Error saving content:''])"
  using assms by (auto simp: handleSubmit_def uploadFile_def saveFailed_def Let_def)

lemma handleSubmit_uploaded:
  assumes "file' s = Some f" and "ru = Result d None"
  shows "take 2 (snd (handleSubmit s uniqueId ru publicUrl now rw rf)) =
           [StorageUpload (uploadPath uniqueId f) (uploadContentType f) f,
            writeRequest s (contentData (formData s) (Some (publicUrl, sizeString f))) now]"
  using assms
  by (auto simp: handleSubmit_def uploadFile_def saveFailed_def Let_def writeRequest_def adminFetchContent_def
      split: result.splits option.splits prod.splits)

text \<open>
  Claim C4. On a submit with a file attached, the first request is the upload of the
  file and the second, sent once the upload has answered without error, is the insert
  or update of the record, which carries the url that the upload gave and the size
  string of the file. When the upload fails (an error or an exception) no insert and no
  update is sent, and the error message of the form is set.
\<close>

theorem handleSubmit_upload_first:
  assumes "file' s = Some f"
  shows "((ru = Rejected \<or> ru = Result d (Some m)) \<longrightarrow>
            (\<forall>e \<in> set (snd (handleSubmit s uniqueId ru publicUrl now rw rf)). written e = None) \<and>
            adminError (fst (handleSubmit s uniqueId ru publicUrl now rw rf)) =
              Some ''Failed to save content. Please try again.'') \<and>
         (ru = Result d None \<and> publicUrl \<noteq> [] \<longrightarrow>
            take 2 (snd (handleSubmit s uniqueId ru publicUrl now rw rf)) =
              [StorageUpload (uploadPath uniqueId f) (uploadContentType f) f,
               writeRequest s ((formData s)\<lparr>form_file_size := sizeString f, form_file_url := Some publicUrl\<rparr>) now] \<and>
            written (snd (handleSubmit s uniqueId ru publicUrl now rw rf) ! 1) =
              Some ((formData s)\<lparr>form_file_size := sizeString f, form_file_url := Some publicUrl\<rparr>))"
proof (intro conjI impI)
  assume fail: "ru = Rejected \<or> ru = Result d (Some m)"
  note eq = handleSubmit_upload_failed [OF assms fail, of uniqueId publicUrl now rw rf]
  show "\<forall>e \<in> set (snd (handleSubmit s uniqueId ru publicUrl now rw rf)). written e = None"
    by (simp add: eq written_def)
  show "adminError (fst (handleSubmit s uniqueId ru publicUrl now rw rf)) =
          Some ''Failed to save content. Please try again.''"
    by (simp add: eq)
next
  assume ok: "ru = Result d None \<and> publicUrl \<noteq> []"
  let ?cd = "(formData s)\<lparr>form_file_size := sizeString f, form_file_url := Some publicUrl\<rparr>"
  from ok have cd: "contentData (formData s) (Some (publicUrl, sizeString f)) = ?cd"
    by (simp add: contentData_def sizeString_nonempty)
  from ok handleSubmit_uploaded [OF assms, of ru d uniqueId publicUrl now rw rf]
  show two: "take 2 (snd (handleSubmit s uniqueId ru publicUrl now rw rf)) =
       [StorageUpload (uploadPath uniqueId f) (uploadContentType f) f, writeRequest s ?cd now]"
    by (simp only: cd)
  have "snd (handleSubmit s uniqueId ru publicUrl now rw rf) ! 1 =
          take 2 (snd (handleSubmit s uniqueId ru publicUrl now rw rf)) ! 1"
    by simp
  then show "written (snd (handleSubmit s uniqueId ru publicUrl now rw rf) ! 1) = Some ?cd"
    by (simp only: two) (simp add: written_writeRequest)
qed

theorem handleSubmit_upload_first_witness:
  "file' panel = Some page \<and>
   map written (snd (handleSubmit panel ''k3x9'' (Result None (Some ''quota'')) ''https://files/content/k3x9-Client.HTML''
                       ''2025-03-26T14:43:18Z'' Rejected Rejected)) = [None, None, None] \<and>
   adminError (fst (handleSubmit panel ''k3x9'' (Result None (Some ''quota'')) ''https://files/content/k3x9-Client.HTML''
                       ''2025-03-26T14:43:18Z'' Rejected Rejected)) =
     Some ''Failed to save content. Please try again.'' \<and>
   take 2 (snd (handleSubmit panel ''k3x9'' (Result None None) ''https://files/content/k3x9-Client.HTML''
                  ''2025-03-26T14:43:18Z'' (Result None None) (Result None None))) =
     [StorageUpload ''content/k3x9-Client.HTML'' (uploadContentType page) page,
      InsertContent (emptyForm\<lparr>form_title := ''Test Pack'', form_file_size := sizeString page,
                               form_file_url := Some ''https://files/content/k3x9-Client.HTML''\<rparr>) 0 0 ''admin'']"
  using handleSubmit_upload_first [of panel page "Result None (Some ''quota'')" None "''quota''" "''k3x9''"
      "''https://files/content/k3x9-Client.HTML''" "''2025-03-26T14:43:18Z''" Rejected Rejected]
    handleSubmit_upload_first [of panel page "Result None None" None "''quota''" "''k3x9''"
      "''https://files/content/k3x9-Client.HTML''" "''2025-03-26T14:43:18Z''" "Result None None" "Result None None"]
  by (simp add: panel_def uploadPath_def writeRequest_def page_def handleSubmit_def uploadFile_def
      saveFailed_def written_def)

subsection \<open>Delete\<close>

text \<open>Confirming the delete of an item calls \<open>handleDelete\<close> with its id.\<close>

lemma clickDelete_confirmed:
  "i \<noteq> [] \<Longrightarrow> clickDelete (confirmDelete s i) rd rf = handleDelete (confirmDelete s i) i rd rf"
  by (simp add: clickDelete_def confirmDelete_def)

lemma confirmDelete_content: "content (confirmDelete s i) = content s"
  by (simp add: confirmDelete_def)




section \<open>The download endpoint\<close>



end
